theory Spec2Isabelle
  imports Complex_Main "HOL-Library.Word" "HOL-Library.Sublist"
begin

section \<open>Data model (types.ts)\<close>

text \<open>
  The interfaces of \<^verbatim>\<open>types.ts\<close> as records. A field whose source name is
  an Isabelle keyword or a constant of the library (\<^verbatim>\<open>id\<close>, \<^verbatim>\<open>text\<close>,
  \<^verbatim>\<open>type\<close>, \<^verbatim>\<open>definition\<close>) carries the name of its interface as a prefix.
  An optional field (\<^verbatim>\<open>f?: T\<close>) and a \<^verbatim>\<open>T | null\<close> are \<open>T option\<close>.
\<close>

datatype ViewState = HOME | ANALYSIS | HISTORY | FAVORITES | DAILY_STUDY

record WordBreakdown =
  word :: string
  partOfSpeech :: string
  ipa :: string
  word_definition :: string
  etymology :: string

record LearningAnalysis =
  originalText :: string
  translation :: string
  breakdown :: "WordBreakdown list"
  examples :: "string list"
  visualAidPrompt :: string
  grammarNotes :: string

record HistoryItem =
  item_id :: string
  timestamp :: nat
  data :: LearningAnalysis
  isFavorite :: bool
  generatedImageUrl :: "string option"

datatype UserLevel = A1 | A2 | B1 | B2 | C1 | C2

datatype LessonItemType = sentence | vocabulary

record DailyLessonItem =
  lesson_id :: string
  lesson_type :: LessonItemType
  content :: string
  lesson_translation :: string
  grammarFocus :: "string option"
  keyWords :: "WordBreakdown list option"
  lesson_definition :: "string option"
  options :: "string list option"
  correctOptionIndex :: "int option"
  contextSentence :: "string option"

record InlineData =
  mimeType :: string
  inline_data :: string

record ContentPart =
  part_text :: "string option"
  part_inlineData :: "InlineData option"

section \<open>JavaScript values\<close>

text \<open>
  Truthiness of a \<^verbatim>\<open>string | null\<close>: \<^verbatim>\<open>null\<close>, \<^verbatim>\<open>undefined\<close> and the
  empty string are falsy, every other string is truthy.
\<close>

fun truthy :: "string option \<Rightarrow> bool" where
  "truthy None = False"
| "truthy (Some s) = (s \<noteq> [])"

text \<open>\<^verbatim>\<open>xs?.[0]\<close>: the first element, \<^verbatim>\<open>undefined\<close> on an empty array.\<close>

fun first_elem :: "'a list \<Rightarrow> 'a option" where
  "first_elem [] = None"
| "first_elem (x # xs) = Some x"

text \<open>
  \<^verbatim>\<open>n.toString()\<close> for a non-negative integer (the value of \<^verbatim>\<open>Date.now()\<close>,
  milliseconds since the epoch): its decimal digits, most significant first.
\<close>

definition digit_char :: "nat \<Rightarrow> char" where
  "digit_char d = char_of (48 + d)"

fun toString :: "nat \<Rightarrow> string" where
  "toString n = (if n < 10 then [digit_char n] else toString (n div 10) @ [digit_char (n mod 10)])"

declare toString.simps [simp del]

text \<open>
  \<^verbatim>\<open>s.split(',')\<close> with a one-character separator: the pieces between the
  separators, so that a string without separator is one piece.
\<close>

fun split :: "char \<Rightarrow> string \<Rightarrow> string list" where
  "split c [] = [[]]"
| "split c (x # xs) =
     (if x = c then [] # split c xs
      else (case split c xs of [] \<Rightarrow> [[x]] | y # ys \<Rightarrow> (x # y) # ys))"

text \<open>\<^verbatim>\<open>xs[1]\<close>: the second element, \<^verbatim>\<open>undefined\<close> when there is none.\<close>

fun second_elem :: "'a list \<Rightarrow> 'a option" where
  "second_elem (x # y # ys) = Some y"
| "second_elem _ = None"

text \<open>\<^verbatim>\<open>s.substr(start, len)\<close> for non-negative arguments.\<close>

definition substr :: "nat \<Rightarrow> nat \<Rightarrow> string \<Rightarrow> string" where
  "substr start len s = take len (drop start s)"

section \<open>The AI gateway (services/geminiService)\<close>

text \<open>
  The errors a gateway operation can raise: \<^verbatim>\<open>Error("No input provided")\<close> is
  \<open>InvalidInput\<close>, \<^verbatim>\<open>Error("Empty response ...")\<close> is \<open>EmptyResponse\<close>, the
  \<^verbatim>\<open>SyntaxError\<close> of \<^verbatim>\<open>JSON.parse\<close> is \<open>ParseError\<close>, and a rejection of
  the provider's promise is \<open>NetworkOrProviderError\<close>.
\<close>

datatype gateway_error = InvalidInput | EmptyResponse | ParseError | NetworkOrProviderError

text \<open>
  A request to \<^verbatim>\<open>ai.models.generateContent\<close>: the model, the content parts and
  the response contract (the schema or the output modality, by name).
\<close>

datatype config =
    AnalysisSchema
  | LessonSchema string
  | ImageConfig string
  | SpeechConfig string

record request =
  model :: string
  contents :: "ContentPart list"
  request_config :: config

text \<open>
  The provider's response: \<^verbatim>\<open>response.text\<close> and \<^verbatim>\<open>response.candidates\<close>, each
  candidate with an optional content, a content with optional parts.
\<close>

record Content =
  parts :: "ContentPart list option"

record Candidate =
  candidate_content :: "Content option"

record response =
  response_text :: "string option"
  candidates :: "Candidate list option"

text \<open>
  What the gateway does not compute itself is its environment: the provider behind
  \<^verbatim>\<open>generateContent\<close> (\<open>Inl\<close>: the promise rejects), \<^verbatim>\<open>JSON.parse\<close> followed by
  the cast to the declared type (\<open>None\<close>: it throws), and the rendering
  \<^verbatim>\<open>Math.random().toString(36)\<close> of the \<open>k\<close>-th random number drawn by a call.
  The cast checks nothing at run time; a JSON value that parses but has not the
  declared shape is not among the values of the declared type here.
\<close>

record env =
  generateContent :: "request \<Rightarrow> gateway_error + response"
  parse_analysis :: "string \<Rightarrow> LearningAnalysis option"
  parse_lesson :: "string \<Rightarrow> DailyLessonItem list option"
  random36 :: "nat \<Rightarrow> string"

definition ANALYSIS_MODEL :: string where "ANALYSIS_MODEL = ''gemini-2.5-flash''"
definition IMAGE_MODEL :: string where "IMAGE_MODEL = ''gemini-2.5-flash-image''"
definition TTS_MODEL :: string where "TTS_MODEL = ''gemini-2.5-flash-preview-tts''"

definition text_part :: "string \<Rightarrow> ContentPart" where
  "text_part s = \<lparr>part_text = Some s, part_inlineData = None\<rparr>"

definition inline_part :: "string \<Rightarrow> string \<Rightarrow> ContentPart" where
  "inline_part m d = \<lparr>part_text = None, part_inlineData = Some \<lparr>mimeType = m, inline_data = d\<rparr>\<rparr>"

subsection \<open>analyzeContent\<close>

text \<open>
  The prompt template: of its fixed wording only the lines with an interpolated
  value are kept.
\<close>

definition analysis_prompt :: "string \<Rightarrow> string \<Rightarrow> string" where
  "analysis_prompt sourceLang targetLang =
     ''Input Language: '' @ (if sourceLang = ''Auto'' then ''Detect automatically'' else sourceLang)
     @ ''; Output/Explanation Language: '' @ targetLang"

text \<open>
  Lines 49 to 63: the parts of the request. The image is tested first, the text only
  when there is no image, and with neither the function throws.
\<close>

definition analysis_parts ::
  "string option \<Rightarrow> string option \<Rightarrow> string \<Rightarrow> string \<Rightarrow> gateway_error + ContentPart list" where
  "analysis_parts text_in imageBase64 sourceLang targetLang =
     (if truthy imageBase64 then
        Inr [text_part (analysis_prompt sourceLang targetLang),
             inline_part ''image/jpeg'' (the imageBase64),
             text_part ''Extract the text from this image and analyze it.'']
      else if truthy text_in then
        Inr [text_part (analysis_prompt sourceLang targetLang),
             text_part (''Analyze this text: '' @ [CHR 0x22] @ the text_in @ [CHR 0x22])]
      else Inl InvalidInput)"

text \<open>
  The result of a gateway operation together with the requests it has sent to the
  provider, in order. The \<^verbatim>\<open>catch\<close> of \<^verbatim>\<open>analyzeContent\<close> logs and rethrows.
\<close>

definition analyzeContent ::
  "env \<Rightarrow> string option \<Rightarrow> string option \<Rightarrow> string \<Rightarrow> string
     \<Rightarrow> (gateway_error + LearningAnalysis) \<times> request list" where
  "analyzeContent e text_in imageBase64 sourceLang targetLang =
     (case analysis_parts text_in imageBase64 sourceLang targetLang of
        Inl err \<Rightarrow> (Inl err, [])
      | Inr ps \<Rightarrow>
          (let req = \<lparr>model = ANALYSIS_MODEL, contents = ps, request_config = AnalysisSchema\<rparr>
           in (case generateContent e req of
                 Inl err \<Rightarrow> Inl err
               | Inr resp \<Rightarrow>
                   (if \<not> truthy (response_text resp) then Inl EmptyResponse
                    else (case parse_analysis e (the (response_text resp)) of
                            None \<Rightarrow> Inl ParseError
                          | Some a \<Rightarrow> Inr a)),
               [req])))"

subsection \<open>generateMnemonicImage\<close>

text \<open>\<^verbatim>\<open>response.candidates?.[0]?.content?.parts || []\<close>\<close>

definition candidate_parts :: "response \<Rightarrow> ContentPart list" where
  "candidate_parts resp =
     (case candidates resp of
        None \<Rightarrow> []
      | Some cs \<Rightarrow>
          (case first_elem cs of
             None \<Rightarrow> []
           | Some c \<Rightarrow>
               (case candidate_content c of
                  None \<Rightarrow> []
                | Some ct \<Rightarrow> (case parts ct of None \<Rightarrow> [] | Some ps \<Rightarrow> ps))))"

text \<open>
  The loop over the parts: the first part with inline data ends the function with
  its data URI; past the last part the function returns the empty string.
\<close>

fun scan_parts :: "ContentPart list \<Rightarrow> string" where
  "scan_parts [] = []"
| "scan_parts (p # ps) =
     (case part_inlineData p of
        Some d \<Rightarrow> ''data:'' @ mimeType d @ '';base64,'' @ inline_data d
      | None \<Rightarrow> scan_parts ps)"

definition image_request :: "string \<Rightarrow> request" where
  "image_request prompt =
     \<lparr>model = IMAGE_MODEL, contents = [text_part prompt], request_config = ImageConfig ''1:1''\<rparr>"

text \<open>The body of the \<^verbatim>\<open>try\<close>: it raises when the provider does.\<close>

definition generateMnemonicImage_try :: "env \<Rightarrow> string \<Rightarrow> gateway_error + string" where
  "generateMnemonicImage_try e prompt =
     (case generateContent e (image_request prompt) of
        Inl err \<Rightarrow> Inl err
      | Inr resp \<Rightarrow> Inr (scan_parts (candidate_parts resp)))"

text \<open>The function with its \<^verbatim>\<open>catch\<close>, which logs and returns the empty string.\<close>

definition generateMnemonicImage :: "env \<Rightarrow> string \<Rightarrow> gateway_error + string" where
  "generateMnemonicImage e prompt =
     (case generateMnemonicImage_try e prompt of
        Inl err \<Rightarrow> Inr []
      | Inr url \<Rightarrow> Inr url)"

subsection \<open>generateTextToSpeech\<close>

text \<open>\<^verbatim>\<open>response.candidates?.[0]?.content?.parts?.[0]?.inlineData?.data\<close>\<close>

definition first_inline_data :: "response \<Rightarrow> string option" where
  "first_inline_data resp =
     (case candidates resp of
        None \<Rightarrow> None
      | Some cs \<Rightarrow>
          (case first_elem cs of
             None \<Rightarrow> None
           | Some c \<Rightarrow>
               (case candidate_content c of
                  None \<Rightarrow> None
                | Some ct \<Rightarrow>
                    (case parts ct of
                       None \<Rightarrow> None
                     | Some ps \<Rightarrow>
                         (case first_elem ps of
                            None \<Rightarrow> None
                          | Some p \<Rightarrow>
                              (case part_inlineData p of
                                 None \<Rightarrow> None
                               | Some d \<Rightarrow> Some (inline_data d)))))))"

definition tts_request :: "string \<Rightarrow> request" where
  "tts_request t =
     \<lparr>model = TTS_MODEL, contents = [text_part t], request_config = SpeechConfig ''Kore''\<rparr>"

definition generateTextToSpeech_try :: "env \<Rightarrow> string \<Rightarrow> gateway_error + string option" where
  "generateTextToSpeech_try e t =
     (case generateContent e (tts_request t) of
        Inl err \<Rightarrow> Inl err
      | Inr resp \<Rightarrow>
          (let base64Audio = first_inline_data resp
           in Inr (if truthy base64Audio then base64Audio else None)))"

definition generateTextToSpeech :: "env \<Rightarrow> string \<Rightarrow> gateway_error + string option" where
  "generateTextToSpeech e t =
     (case generateTextToSpeech_try e t of
        Inl err \<Rightarrow> Inr None
      | Inr a \<Rightarrow> Inr a)"

subsection \<open>generateDailyLesson\<close>

fun level_name :: "UserLevel \<Rightarrow> string" where
  "level_name A1 = ''A1''"
| "level_name A2 = ''A2''"
| "level_name B1 = ''B1''"
| "level_name B2 = ''B2''"
| "level_name C1 = ''C1''"
| "level_name C2 = ''C2''"

text \<open>\<^verbatim>\<open>xs.join(sep)\<close>\<close>

fun join :: "string \<Rightarrow> string list \<Rightarrow> string" where
  "join sep [] = []"
| "join sep [x] = x"
| "join sep (x # y # ys) = x @ sep @ join sep (y # ys)"

text \<open>
  The prompt template, again reduced to its interpolated lines: the level, the
  requested number of items, at most ten earlier topics and the language.
\<close>

definition lesson_prompt :: "UserLevel \<Rightarrow> nat \<Rightarrow> string list \<Rightarrow> string \<Rightarrow> string" where
  "lesson_prompt level count previousTopics systemLanguage =
     ''Generate a daily English lesson plan for a student at level '' @ level_name level
     @ ''. Generate exactly '' @ toString count @ '' distinct items.''
     @ '' The student has recently studied: '' @ join '', '' (take 10 previousTopics)
     @ ''. Explain in '' @ systemLanguage"

definition lesson_request :: "UserLevel \<Rightarrow> nat \<Rightarrow> string list \<Rightarrow> string \<Rightarrow> request" where
  "lesson_request level count previousTopics systemLanguage =
     \<lparr>model = ANALYSIS_MODEL,
      contents = [text_part (lesson_prompt level count previousTopics systemLanguage)],
      request_config = LessonSchema systemLanguage\<rparr>"

text \<open>
  \<^verbatim>\<open>parsed.map(item => ({...item, id: Math.random().toString(36).substr(2, 9)}))\<close>:
  the \<open>k\<close>-th item takes its id from the \<open>k\<close>-th random number drawn.
\<close>

fun assign_ids :: "(nat \<Rightarrow> string) \<Rightarrow> nat \<Rightarrow> DailyLessonItem list \<Rightarrow> DailyLessonItem list" where
  "assign_ids rnd k [] = []"
| "assign_ids rnd k (item # items) =
     item\<lparr>lesson_id := substr 2 9 (rnd k)\<rparr> # assign_ids rnd (Suc k) items"

definition generateDailyLesson ::
  "env \<Rightarrow> UserLevel \<Rightarrow> nat \<Rightarrow> string list \<Rightarrow> string \<Rightarrow> gateway_error + DailyLessonItem list" where
  "generateDailyLesson e level count previousTopics systemLanguage =
     (case generateContent e (lesson_request level count previousTopics systemLanguage) of
        Inl err \<Rightarrow> Inl err
      | Inr resp \<Rightarrow>
          (if \<not> truthy (response_text resp) then Inl EmptyResponse
           else (case parse_lesson e (the (response_text resp)) of
                   None \<Rightarrow> Inl ParseError
                 | Some parsed \<Rightarrow> Inr (assign_ids (random36 e) 0 parsed))))"

section \<open>The application state controller (App.tsx)\<close>

record AppState =
  view :: ViewState
  history :: "HistoryItem list"
  currentId :: "string option"
  textInput :: string
  selectedImage :: "string option"
  isAnalyzing :: bool
  error_message :: "string option"
  quickViewItem :: "HistoryItem option"
  isQuickAnalyzing :: bool
  sourceLang :: string
  targetLang :: string
  showStoryMode :: bool

text \<open>
  The item the three save paths build. The id and the timestamp come from two
  readings of \<^verbatim>\<open>Date.now()\<close>, \<open>t_id\<close> and \<open>t_ts\<close>.
\<close>

definition newItem :: "nat \<Rightarrow> nat \<Rightarrow> LearningAnalysis \<Rightarrow> bool \<Rightarrow> HistoryItem" where
  "newItem t_id t_ts result fav =
     \<lparr>item_id = toString t_id, timestamp = t_ts, data = result, isFavorite = fav,
      generatedImageUrl = None\<rparr>"

text \<open>
  \<^verbatim>\<open>handleAnalyze\<close>, from the click to the end of its \<^verbatim>\<open>finally\<close>, with no
  other handler running in between.
\<close>

definition handleAnalyze :: "env \<Rightarrow> nat \<Rightarrow> nat \<Rightarrow> string \<Rightarrow> AppState \<Rightarrow> AppState" where
  "handleAnalyze e t_id t_ts inputText s =
     (if inputText = [] \<and> \<not> truthy (selectedImage s) then s
      else
        (let base64Data =
               (if truthy (selectedImage s) then second_elem (split (CHR '','') (the (selectedImage s)))
                else None)
         in (case fst (analyzeContent e (Some inputText) base64Data (sourceLang s) (targetLang s)) of
               Inr result \<Rightarrow>
                 s\<lparr>history := newItem t_id t_ts result False # history s,
                   currentId := Some (toString t_id),
                   view := ANALYSIS,
                   textInput := [],
                   selectedImage := None,
                   showStoryMode := False,
                   error_message := None,
                   isAnalyzing := False\<rparr>
             | Inl err \<Rightarrow>
                 s\<lparr>error_message := Some ''Failed to analyze content. Please try again.'',
                   isAnalyzing := False\<rparr>)))"

definition handleQuickLookup :: "env \<Rightarrow> nat \<Rightarrow> nat \<Rightarrow> string \<Rightarrow> AppState \<Rightarrow> AppState" where
  "handleQuickLookup e t_id t_ts w s =
     (if w = [] then s
      else
        (case fst (analyzeContent e (Some w) None
                     (if sourceLang s = ''Auto'' then ''English'' else sourceLang s) (targetLang s)) of
           Inr result \<Rightarrow>
             s\<lparr>history := newItem t_id t_ts result False # history s,
               quickViewItem := Some (newItem t_id t_ts result False),
               isQuickAnalyzing := False\<rparr>
         | Inl err \<Rightarrow> s\<lparr>quickViewItem := None, isQuickAnalyzing := False\<rparr>))"

definition handleSaveDailyItem :: "nat \<Rightarrow> nat \<Rightarrow> LearningAnalysis \<Rightarrow> AppState \<Rightarrow> AppState" where
  "handleSaveDailyItem t_id t_ts analysisData s =
     s\<lparr>history := newItem t_id t_ts analysisData True # history s\<rparr>"

definition toggleFavorite :: "string \<Rightarrow> AppState \<Rightarrow> AppState" where
  "toggleFavorite i s =
     s\<lparr>history :=
         map (\<lambda>item. if item_id item = i then item\<lparr>isFavorite := \<not> isFavorite item\<rparr> else item)
           (history s),
       quickViewItem :=
         (case quickViewItem s of
            Some q \<Rightarrow> (if item_id q = i then Some (q\<lparr>isFavorite := \<not> isFavorite q\<rparr>) else Some q)
          | None \<Rightarrow> None)\<rparr>"

definition updateGeneratedImage :: "string \<Rightarrow> string \<Rightarrow> AppState \<Rightarrow> AppState" where
  "updateGeneratedImage i url s =
     s\<lparr>history :=
         map (\<lambda>item. if item_id item = i then item\<lparr>generatedImageUrl := Some url\<rparr> else item)
           (history s),
       quickViewItem :=
         (case quickViewItem s of
            Some q \<Rightarrow> (if item_id q = i then Some (q\<lparr>generatedImageUrl := Some url\<rparr>) else Some q)
          | None \<Rightarrow> None)\<rparr>"

text \<open>
  \<^verbatim>\<open>handleGenerateImage\<close> of the analysis card showing \<open>item\<close>, as its effect on
  the application state through \<^verbatim>\<open>onUpdateImage\<close>; the card's own busy flag is
  set at the start and cleared in the \<^verbatim>\<open>finally\<close>. A raising
  \<^verbatim>\<open>generateMnemonicImage\<close> would leave the state as it is.
\<close>

definition handleGenerateImage :: "env \<Rightarrow> HistoryItem \<Rightarrow> AppState \<Rightarrow> AppState" where
  "handleGenerateImage e item s =
     (if truthy (generatedImageUrl item) then s
      else (case generateMnemonicImage e (visualAidPrompt (data item)) of
              Inl err \<Rightarrow> s
            | Inr url \<Rightarrow> (if url \<noteq> [] then updateGeneratedImage (item_id item) url s else s)))"





section \<open>The audio decoder and the playback lifecycle (components/StoryGenerator.tsx)\<close>

datatype audio_error = RangeError | NotSupportedError

text \<open>
  \<^verbatim>\<open>new Int16Array(bytes.buffer)\<close>: a view of the bytes as 16-bit signed
  integers, each from two consecutive bytes, the low byte first (the byte order of
  the platforms browsers run on). A buffer of odd length raises a RangeError.
\<close>

fun int16_pairs :: "8 word list \<Rightarrow> 16 word list" where
  "int16_pairs (lo # hi # rest) = word_cat hi lo # int16_pairs rest"
| "int16_pairs _ = []"

definition Int16Array :: "8 word list \<Rightarrow> audio_error + 16 word list" where
  "Int16Array bytes = (if odd (length bytes) then Inl RangeError else Inr (int16_pairs bytes))"

text \<open>
  \<^verbatim>\<open>ctx.createBuffer(1, n, 24000)\<close> followed by \<^verbatim>\<open>getChannelData(0)\<close>: one
  channel of \<open>n\<close> samples, all zero. Web Audio rejects a length of zero with a
  NotSupportedError.
\<close>

definition createBuffer :: "nat \<Rightarrow> audio_error + real list" where
  "createBuffer n = (if n = 0 then Inl NotSupportedError else Inr (replicate n 0))"

text \<open>
  The loop of lines 109 to 111, \<^verbatim>\<open>channelData[i] = dataInt16[i] / 32768.0\<close> for
  \<open>i\<close> from 0 below \<^verbatim>\<open>dataInt16.length\<close>. The quotient of a 16-bit integer by
  \<open>2^15\<close> is exact in the 32-bit floats of the channel, so the samples are the
  rational numbers themselves.
\<close>

definition fill_channel :: "16 word list \<Rightarrow> real list \<Rightarrow> real list" where
  "fill_channel dataInt16 channelData =
     foldl (\<lambda>cd i. cd[i := real_of_int (sint (dataInt16 ! i)) / 32768]) channelData
       [0..<length dataInt16]"

text \<open>Lines 106 to 111 together: the channel data of the buffer to play.\<close>

definition decodeAudioData :: "8 word list \<Rightarrow> audio_error + real list" where
  "decodeAudioData bytes =
     (case Int16Array bytes of
        Inl err \<Rightarrow> Inl err
      | Inr dataInt16 \<Rightarrow>
          (case createBuffer (length dataInt16) of
             Inl err \<Rightarrow> Inl err
           | Inr channelData \<Rightarrow> Inr (fill_channel dataInt16 channelData)))"

text \<open>
  An \<^verbatim>\<open>AudioBufferSourceNode\<close>: its buffer, whether it is playing (started and
  neither stopped nor run to its end), and whether its \<^verbatim>\<open>ended\<close> event is queued
  and not yet dispatched. The nodes created so far are kept in creation order, and
  \<^verbatim>\<open>sourceNodeRef.current\<close> is an index into them.
\<close>

record SourceNode =
  node_buffer :: "real list"
  node_playing :: bool
  ended_pending :: bool

record Story =
  story_title :: string
  story_content :: string

record StoryState =
  story :: "Story option"
  isLoading :: bool
  audioBase64 :: "string option"
  isPlaying :: bool
  isGeneratingAudio :: bool
  audioContextRef :: bool
  sourceNodeRef :: "nat option"
  nodes :: "SourceNode list"

text \<open>\<^verbatim>\<open>source.stop()\<close>: a playing node stops, and its \<^verbatim>\<open>ended\<close> event is queued.\<close>

definition stop :: "SourceNode \<Rightarrow> SourceNode" where
  "stop n = (if node_playing n then n\<lparr>node_playing := False, ended_pending := True\<rparr> else n)"

definition stopAudio :: "StoryState \<Rightarrow> StoryState" where
  "stopAudio s =
     (case sourceNodeRef s of
        Some k \<Rightarrow>
          s\<lparr>nodes := (if k < length (nodes s) then (nodes s)[k := stop (nodes s ! k)] else nodes s),
            sourceNodeRef := None,
            isPlaying := False\<rparr>
      | None \<Rightarrow> s\<lparr>isPlaying := False\<rparr>)"

text \<open>
  \<^verbatim>\<open>playFromBase64\<close>. The browser's \<^verbatim>\<open>atob\<close> is a parameter: the decoded
  bytes, or \<open>None\<close> where it raises. Every exception of the body ends in the
  \<^verbatim>\<open>catch\<close>, which clears \<^verbatim>\<open>isPlaying\<close>.
\<close>

definition playFromBase64 :: "(string \<Rightarrow> 8 word list option) \<Rightarrow> string \<Rightarrow> StoryState \<Rightarrow> StoryState" where
  "playFromBase64 atob base64 s =
     (let s1 = s\<lparr>audioContextRef := True\<rparr>
      in (case atob base64 of
            None \<Rightarrow> s1\<lparr>isPlaying := False\<rparr>
          | Some bytes \<Rightarrow>
              (case decodeAudioData bytes of
                 Inl err \<Rightarrow> s1\<lparr>isPlaying := False\<rparr>
               | Inr channelData \<Rightarrow>
                   s1\<lparr>nodes := nodes s1 @
                        [\<lparr>node_buffer = channelData, node_playing = True, ended_pending = False\<rparr>],
                      sourceNodeRef := Some (length (nodes s1)),
                      isPlaying := True\<rparr>)))"

text \<open>
  \<^verbatim>\<open>playAudio\<close>, from the click to the end of its \<^verbatim>\<open>finally\<close>: the cached
  audio is played at once, otherwise speech is requested first.
\<close>

definition playAudio :: "env \<Rightarrow> (string \<Rightarrow> 8 word list option) \<Rightarrow> StoryState \<Rightarrow> StoryState" where
  "playAudio e atob s =
     (case story s of
        None \<Rightarrow> s
      | Some st \<Rightarrow>
          (if truthy (audioBase64 s) then playFromBase64 atob (the (audioBase64 s)) s
           else (case generateTextToSpeech e (story_content st) of
                   Inl err \<Rightarrow> s\<lparr>isGeneratingAudio := False\<rparr>
                 | Inr b64 \<Rightarrow>
                     (if truthy b64
                      then (playFromBase64 atob (the b64) (s\<lparr>audioBase64 := b64\<rparr>))
                             \<lparr>isGeneratingAudio := False\<rparr>
                      else s\<lparr>isGeneratingAudio := False\<rparr>))))"

text \<open>
  The handler \<^verbatim>\<open>source.onended = () => setIsPlaying(false)\<close>, run when the
  queued \<^verbatim>\<open>ended\<close> event of node \<open>k\<close> is dispatched.
\<close>

definition onended :: "nat \<Rightarrow> StoryState \<Rightarrow> StoryState" where
  "onended k s =
     (if k < length (nodes s) \<and> ended_pending (nodes s ! k)
      then s\<lparr>nodes := (nodes s)[k := (nodes s ! k)\<lparr>ended_pending := False\<rparr>], isPlaying := False\<rparr>
      else s)"

text \<open>
  What can happen to the component: a click on ``Listen to Story'' (rendered while
  there is a story, nothing is loading and \<^verbatim>\<open>isPlaying\<close> is false; disabled
  while speech is generated), a click on ``Stop Audio'' (rendered in its place while
  \<^verbatim>\<open>isPlaying\<close> is true), a playing node reaching the end of its buffer, and the
  dispatch of a node's queued \<^verbatim>\<open>ended\<close> event.
\<close>

datatype player_event = ClickListen | ClickStop | BufferEnd nat | EndedEvent nat

definition player_step ::
  "env \<Rightarrow> (string \<Rightarrow> 8 word list option) \<Rightarrow> player_event \<Rightarrow> StoryState \<Rightarrow> StoryState" where
  "player_step e atob ev s =
     (case ev of
        ClickListen \<Rightarrow>
          (if story s \<noteq> None \<and> \<not> isLoading s \<and> \<not> isPlaying s \<and> \<not> isGeneratingAudio s
           then playAudio e atob s else s)
      | ClickStop \<Rightarrow>
          (if story s \<noteq> None \<and> \<not> isLoading s \<and> isPlaying s then stopAudio s else s)
      | BufferEnd k \<Rightarrow>
          (if k < length (nodes s) then s\<lparr>nodes := (nodes s)[k := stop (nodes s ! k)]\<rparr> else s)
      | EndedEvent k \<Rightarrow> onended k s)"

fun player_run ::
  "env \<Rightarrow> (string \<Rightarrow> 8 word list option) \<Rightarrow> player_event list \<Rightarrow> StoryState \<Rightarrow> StoryState" where
  "player_run e atob [] s = s"
| "player_run e atob (ev # evs) s = player_run e atob evs (player_step e atob ev s)"

text \<open>The nodes that are playing, by index.\<close>

definition active_sources :: "StoryState \<Rightarrow> nat list" where
  "active_sources s = filter (\<lambda>k. node_playing (nodes s ! k)) [0..<length (nodes s)]"

section \<open>Concrete inputs\<close>

definition sample_analysis :: LearningAnalysis where
  "sample_analysis =
     \<lparr>originalText = ''hello'', translation = ''ni hao'', breakdown = [], examples = [],
      visualAidPrompt = ''a waving hand'', grammarNotes = ''greeting''\<rparr>"

definition sample_sentence :: DailyLessonItem where
  "sample_sentence =
     \<lparr>lesson_id = ''1'', lesson_type = sentence, content = ''If I were you, I would go.'',
      lesson_translation = ''t1'', grammarFocus = Some ''second conditional'', keyWords = Some [],
      lesson_definition = None, options = None, correctOptionIndex = None,
      contextSentence = None\<rparr>"

definition sample_vocabulary :: DailyLessonItem where
  "sample_vocabulary =
     \<lparr>lesson_id = [], lesson_type = vocabulary, content = ''tree'',
      lesson_translation = ''t2'', grammarFocus = None, keyWords = None,
      lesson_definition = Some ''a tall plant'', options = Some [''a'', ''b'', ''c'', ''d''],
      correctOptionIndex = Some 7, contextSentence = Some ''The tree is tall.''\<rparr>"

text \<open>
  A provider that answers every request with a JSON text, an inline image and
  inline audio, and whose lesson holds two items whatever number was requested.
\<close>

definition sample_response :: response where
  "sample_response =
     \<lparr>response_text = Some ''{}'',
      candidates = Some [\<lparr>candidate_content = Some \<lparr>parts = Some
        [text_part ''here'', inline_part ''image/png'' ''QUJD'']\<rparr>\<rparr>]\<rparr>"

definition audio_response :: response where
  "audio_response =
     \<lparr>response_text = None,
      candidates = Some [\<lparr>candidate_content = Some \<lparr>parts = Some
        [inline_part ''audio/pcm'' ''AAD/fw=='']\<rparr>\<rparr>]\<rparr>"

definition empty_response :: response where
  "empty_response = \<lparr>response_text = None, candidates = None\<rparr>"

definition good_env :: env where
  "good_env =
     \<lparr>generateContent = (\<lambda>req. if model req = TTS_MODEL then Inr audio_response else Inr sample_response),
      parse_analysis = (\<lambda>t. Some sample_analysis),
      parse_lesson = (\<lambda>t. Some [sample_sentence, sample_vocabulary]),
      random36 = (\<lambda>k. if k = 0 then ''0.k3j9x2m1qzp'' else ''0.8f2mz0c4vbe'')\<rparr>"

definition failing_env :: env where
  "failing_env = good_env\<lparr>generateContent := (\<lambda>req. Inl NetworkOrProviderError)\<rparr>"

definition silent_env :: env where
  "silent_env = good_env\<lparr>generateContent := (\<lambda>req. Inr empty_response)\<rparr>"

text \<open>
  A provider whose image response holds a part with an inline-data object that
  carries a MIME type and no data.
\<close>

definition hollow_response :: response where
  "hollow_response =
     \<lparr>response_text = None,
      candidates = Some [\<lparr>candidate_content = Some \<lparr>parts = Some
        [inline_part ''image/png'' []]\<rparr>\<rparr>]\<rparr>"

definition hollow_env :: env where
  "hollow_env = good_env\<lparr>generateContent := (\<lambda>req. Inr hollow_response)\<rparr>"

definition init_state :: AppState where
  "init_state =
     \<lparr>view = HOME, history = [], currentId = None, textInput = [], selectedImage = None,
      isAnalyzing = False, error_message = None, quickViewItem = None,
      isQuickAnalyzing = False, sourceLang = ''Auto'', targetLang = ''Chinese'',
      showStoryMode = False\<rparr>"

text \<open>
  The story component with a story shown and its audio cached: four bytes, the
  samples \<open>0\<close> and \<open>32767\<close>.
\<close>

definition sample_atob :: "string \<Rightarrow> 8 word list option" where
  "sample_atob b = (if b = ''AAD/fw=='' then Some [0, 0, 255, 127] else None)"

definition story_state :: StoryState where
  "story_state =
     \<lparr>story = Some \<lparr>story_title = ''A day'', story_content = ''Once upon a time.''\<rparr>,
      isLoading = False, audioBase64 = Some ''AAD/fw=='', isPlaying = False,
      isGeneratingAudio = False, audioContextRef = False, sourceNodeRef = None, nodes = []\<rparr>"

text \<open>
  The controller after one quick lookup at clock reading 1000: the item is in the
  history and open in the quick view.
\<close>

definition quick_state :: AppState where
  "quick_state =
     init_state\<lparr>history := [newItem 1000 1000 sample_analysis False],
                quickViewItem := Some (newItem 1000 1000 sample_analysis False)\<rparr>"


text \<open>The source node that the cached audio gives: playing or not, event queued or not.\<close>

definition node0 :: "bool \<Rightarrow> bool \<Rightarrow> SourceNode" where
  "node0 p q = \<lparr>node_buffer = [0, 32767 / 32768], node_playing = p, ended_pending = q\<rparr>"

section \<open>Input check of analyzeContent\<close>

text \<open>
  Claim C1, as the code has it. \<^verbatim>\<open>analyzeContent\<close> fails with InvalidInput, having
  sent nothing to the provider, when both the text and the image are null or empty.
  When an image is supplied the call proceeds with one request that carries the
  image, whether or not a text came with it; when only a text is supplied it
  proceeds with one request that carries the text.
\<close>

theorem analyzeContent_input_check:
  "(\<not> truthy t \<and> \<not> truthy img \<longrightarrow> analyzeContent e t img src tgt = (Inl InvalidInput, []))
   \<and> (truthy img \<longrightarrow>
        snd (analyzeContent e t img src tgt) =
          [\<lparr>model = ANALYSIS_MODEL,
            contents = [text_part (analysis_prompt src tgt), inline_part ''image/jpeg'' (the img),
                        text_part ''Extract the text from this image and analyze it.''],
            request_config = AnalysisSchema\<rparr>])
   \<and> (\<not> truthy img \<and> truthy t \<longrightarrow>
        snd (analyzeContent e t img src tgt) =
          [\<lparr>model = ANALYSIS_MODEL,
            contents = [text_part (analysis_prompt src tgt),
                        text_part (''Analyze this text: '' @ [CHR 0x22] @ the t @ [CHR 0x22])],
            request_config = AnalysisSchema\<rparr>])"
  by (simp add: analyzeContent_def analysis_parts_def Let_def)

theorem analyzeContent_input_check_witness:
  "analyzeContent good_env None None ''Auto'' ''Chinese'' = (Inl InvalidInput, [])
   \<and> length (snd (analyzeContent good_env (Some ''hello'') (Some ''QUJD'') ''Auto'' ''Chinese'')) = 1
   \<and> length (snd (analyzeContent good_env (Some ''hello'') None ''Auto'' ''Chinese'')) = 1"
  using analyzeContent_input_check [where t = None and img = None and e = good_env and src = "''Auto''" and tgt = "''Chinese''"]
    analyzeContent_input_check [where t = "Some ''hello''" and img = "Some ''QUJD''" and e = good_env and src = "''Auto''" and tgt = "''Chinese''"]
    analyzeContent_input_check [where t = "Some ''hello''" and img = None and e = good_env and src = "''Auto''" and tgt = "''Chinese''"]
  by simp

text \<open>
  With both a text and an image the call is not refused: the request with the image
  is sent and the provider's analysis is returned.
\<close>

theorem analyzeContent_both_counterexample:
  "analyzeContent good_env (Some ''hello'') (Some ''QUJD'') ''Auto'' ''Chinese''
     = (Inr sample_analysis,
        [\<lparr>model = ANALYSIS_MODEL,
          contents = [text_part (analysis_prompt ''Auto'' ''Chinese''), inline_part ''image/jpeg'' ''QUJD'',
                      text_part ''Extract the text from this image and analyze it.''],
          request_config = AnalysisSchema\<rparr>])"
  by (simp add: analyzeContent_def analysis_parts_def Let_def good_env_def sample_response_def
        ANALYSIS_MODEL_def TTS_MODEL_def)

section \<open>Favorites\<close>

lemma toggle_comp:
  "(\<lambda>item. if item_id item = i then item\<lparr>isFavorite := \<not> isFavorite item\<rparr> else item) \<circ>
   (\<lambda>item. if item_id item = i then item\<lparr>isFavorite := \<not> isFavorite item\<rparr> else item) = id"
  by (auto simp: fun_eq_iff)

text \<open>
  Claim C6. Toggling the favorite flag of an id twice gives back the state it
  started from, history and quick view alike. One toggle negates the flag of every
  history item with that id and keeps the others, and negates the flag of the
  quick-view copy when that copy has the id.
\<close>

theorem toggleFavorite_twice:
  "toggleFavorite i (toggleFavorite i s) = s
   \<and> length (history (toggleFavorite i s)) = length (history s)
   \<and> (\<forall>k < length (history s).
         history (toggleFavorite i s) ! k =
           (if item_id (history s ! k) = i
            then (history s ! k)\<lparr>isFavorite := \<not> isFavorite (history s ! k)\<rparr>
            else history s ! k))
   \<and> (\<forall>q. quickViewItem s = Some q \<and> item_id q = i \<longrightarrow>
         quickViewItem (toggleFavorite i s) = Some (q\<lparr>isFavorite := \<not> isFavorite q\<rparr>))"
proof -
  have twice: "toggleFavorite i (toggleFavorite i s) = s"
    unfolding toggleFavorite_def
    by (cases "quickViewItem s") (simp_all add: toggle_comp)
  have len: "length (history (toggleFavorite i s)) = length (history s)"
    by (simp add: toggleFavorite_def)
  have items: "\<forall>k < length (history s).
         history (toggleFavorite i s) ! k =
           (if item_id (history s ! k) = i
            then (history s ! k)\<lparr>isFavorite := \<not> isFavorite (history s ! k)\<rparr>
            else history s ! k)"
    by (simp add: toggleFavorite_def)
  have quick: "\<forall>q. quickViewItem s = Some q \<and> item_id q = i \<longrightarrow>
         quickViewItem (toggleFavorite i s) = Some (q\<lparr>isFavorite := \<not> isFavorite q\<rparr>)"
    by (simp add: toggleFavorite_def)
  from twice len items quick show ?thesis by blast
qed

theorem toggleFavorite_twice_witness:
  "toggleFavorite (toString 1000) (toggleFavorite (toString 1000) quick_state) = quick_state
   \<and> 0 < length (history quick_state)
   \<and> isFavorite (history (toggleFavorite (toString 1000) quick_state) ! 0)
   \<and> quickViewItem (toggleFavorite (toString 1000) quick_state)
       = Some (newItem 1000 1000 sample_analysis True)"
proof -
  note T = toggleFavorite_twice [of "toString 1000" quick_state]
  have len: "0 < length (history quick_state)"
    by (simp add: quick_state_def)
  have q: "quickViewItem quick_state = Some (newItem 1000 1000 sample_analysis False)
           \<and> item_id (newItem 1000 1000 sample_analysis False) = toString 1000"
    by (simp add: quick_state_def newItem_def)
  from T have twice: "toggleFavorite (toString 1000) (toggleFavorite (toString 1000) quick_state) = quick_state"
    by blast
  from T len have "history (toggleFavorite (toString 1000) quick_state) ! 0 =
           (if item_id (history quick_state ! 0) = toString 1000
            then (history quick_state ! 0)\<lparr>isFavorite := \<not> isFavorite (history quick_state ! 0)\<rparr>
            else history quick_state ! 0)"
    by blast
  then have fav: "isFavorite (history (toggleFavorite (toString 1000) quick_state) ! 0)"
    by (simp add: quick_state_def newItem_def)
  from T q have "quickViewItem (toggleFavorite (toString 1000) quick_state)
       = Some ((newItem 1000 1000 sample_analysis False)
                 \<lparr>isFavorite := \<not> isFavorite (newItem 1000 1000 sample_analysis False)\<rparr>)"
    by blast
  then have quick: "quickViewItem (toggleFavorite (toString 1000) quick_state)
       = Some (newItem 1000 1000 sample_analysis True)"
    by (simp add: newItem_def)
  from twice len fav quick show ?thesis by blast
qed

section \<open>Best-effort operations of the gateway\<close>

lemma scan_parts_none:
  "\<forall>p \<in> set ps. part_inlineData p = None \<Longrightarrow> scan_parts ps = []"
  by (induction ps) simp_all

text \<open>
  \<^verbatim>\<open>generateMnemonicImage\<close> always returns a string and never raises. When the
  provider fails, or when no part of the first candidate has an inline-data
  object, the string is empty, and \<^verbatim>\<open>handleGenerateImage\<close> then leaves the
  application state as it was.
\<close>

lemma generateMnemonicImage_failure:
  "(\<exists>url. generateMnemonicImage e prompt = Inr url)
   \<and> ((case generateContent e (image_request prompt) of
          Inl err \<Rightarrow> True
        | Inr resp \<Rightarrow> \<forall>p \<in> set (candidate_parts resp). part_inlineData p = None)
       \<longrightarrow> generateMnemonicImage e prompt = Inr []
           \<and> (\<forall>item s. visualAidPrompt (data item) = prompt \<longrightarrow> handleGenerateImage e item s = s))"
proof -
  have total: "\<exists>url. generateMnemonicImage e prompt = Inr url"
    by (simp add: generateMnemonicImage_def split: sum.split)
  have fail: "generateMnemonicImage e prompt = Inr []"
    if "case generateContent e (image_request prompt) of
          Inl err \<Rightarrow> True
        | Inr resp \<Rightarrow> \<forall>p \<in> set (candidate_parts resp). part_inlineData p = None"
    using that
    by (auto simp: generateMnemonicImage_def generateMnemonicImage_try_def scan_parts_none
          split: sum.splits)
  have keep: "handleGenerateImage e item s = s"
    if "generateMnemonicImage e prompt = Inr []" "visualAidPrompt (data item) = prompt" for item s
    using that by (simp add: handleGenerateImage_def)
  from total fail keep show ?thesis by blast
qed

lemma generateMnemonicImage_failure_examples:
  "generateContent failing_env (image_request ''a waving hand'') = Inl NetworkOrProviderError
   \<and> generateMnemonicImage failing_env ''a waving hand'' = Inr []
   \<and> handleGenerateImage failing_env (newItem 1000 1000 sample_analysis False) quick_state
       = quick_state
   \<and> generateContent silent_env (image_request ''a waving hand'') = Inr empty_response
   \<and> candidate_parts empty_response = []
   \<and> generateMnemonicImage silent_env ''a waving hand'' = Inr []"
proof -
  have f: "generateContent failing_env (image_request ''a waving hand'') = Inl NetworkOrProviderError"
    by (simp add: failing_env_def)
  have g: "generateContent silent_env (image_request ''a waving hand'') = Inr empty_response"
    by (simp add: silent_env_def)
  have c: "candidate_parts empty_response = []"
    by (simp add: candidate_parts_def empty_response_def)
  have p: "visualAidPrompt (data (newItem 1000 1000 sample_analysis False)) = ''a waving hand''"
    by (simp add: newItem_def sample_analysis_def)
  from generateMnemonicImage_failure [of failing_env "''a waving hand''"] f p
  have a: "generateMnemonicImage failing_env ''a waving hand'' = Inr []
     \<and> handleGenerateImage failing_env (newItem 1000 1000 sample_analysis False) quick_state
       = quick_state"
    by simp
  from generateMnemonicImage_failure [of silent_env "''a waving hand''"] g c
  have b: "generateMnemonicImage silent_env ''a waving hand'' = Inr []"
    by simp
  from f g c a b show ?thesis by blast
qed

text \<open>
  Claim C7. When image generation fails, by a provider error or by a response
  without inline image data, \<^verbatim>\<open>generateMnemonicImage\<close> is to return the empty
  string and the cached image URL of the item is to stay as it is. The loop tests
  the inline-data object of a part and not its data: for a response whose part has
  the object with the MIME type \<^verbatim>\<open>image/png\<close> and empty data, the function
  returns the data URI without any data, and \<^verbatim>\<open>handleGenerateImage\<close> stores it
  as the cached image URL of the item, in the history and in the quick view.
\<close>

theorem generateMnemonicImage_empty_data:
  "generateContent hollow_env (image_request ''a waving hand'') = Inr hollow_response
   \<and> map (map_option inline_data \<circ> part_inlineData) (candidate_parts hollow_response) = [Some []]
   \<and> generateMnemonicImage hollow_env ''a waving hand'' = Inr ''data:image/png;base64,''
   \<and> generatedImageUrl (newItem 1000 1000 sample_analysis False) = None
   \<and> map generatedImageUrl
         (history (handleGenerateImage hollow_env (newItem 1000 1000 sample_analysis False)
            quick_state))
       = [Some ''data:image/png;base64,'']
   \<and> map_option generatedImageUrl
         (quickViewItem (handleGenerateImage hollow_env (newItem 1000 1000 sample_analysis False)
            quick_state))
       = Some (Some ''data:image/png;base64,'')"
  by (simp add: hollow_env_def hollow_response_def candidate_parts_def inline_part_def
        generateMnemonicImage_def generateMnemonicImage_try_def handleGenerateImage_def
        updateGeneratedImage_def quick_state_def init_state_def newItem_def sample_analysis_def)

text \<open>
  Claim C9. \<^verbatim>\<open>generateTextToSpeech\<close> always returns and never raises. It returns
  null when the provider fails, and when the first part of the first candidate
  carries no inline data (or empty data).
\<close>

theorem generateTextToSpeech_failure:
  "(\<exists>r. generateTextToSpeech e t = Inr r)
   \<and> (\<forall>err. generateContent e (tts_request t) = Inl err \<longrightarrow> generateTextToSpeech e t = Inr None)
   \<and> (\<forall>resp. generateContent e (tts_request t) = Inr resp \<and> \<not> truthy (first_inline_data resp)
         \<longrightarrow> generateTextToSpeech e t = Inr None)"
  by (simp add: generateTextToSpeech_def generateTextToSpeech_try_def Let_def split: sum.split)

theorem generateTextToSpeech_failure_witness:
  "generateContent failing_env (tts_request ''Once upon a time.'') = Inl NetworkOrProviderError
   \<and> generateTextToSpeech failing_env ''Once upon a time.'' = Inr None
   \<and> generateContent silent_env (tts_request ''Once upon a time.'') = Inr empty_response
   \<and> \<not> truthy (first_inline_data empty_response)
   \<and> generateTextToSpeech silent_env ''Once upon a time.'' = Inr None"
proof -
  have f: "generateContent failing_env (tts_request ''Once upon a time.'') = Inl NetworkOrProviderError"
    by (simp add: failing_env_def)
  have g: "generateContent silent_env (tts_request ''Once upon a time.'') = Inr empty_response"
    by (simp add: silent_env_def)
  have n: "\<not> truthy (first_inline_data empty_response)"
    by (simp add: first_inline_data_def empty_response_def)
  from generateTextToSpeech_failure [of failing_env "''Once upon a time.''"] f
  have a: "generateTextToSpeech failing_env ''Once upon a time.'' = Inr None"
    by blast
  from generateTextToSpeech_failure [of silent_env "''Once upon a time.''"] g n
  have b: "generateTextToSpeech silent_env ''Once upon a time.'' = Inr None"
    by blast
  from f g n a b show ?thesis by blast
qed

section \<open>Saving to the history\<close>

lemma handleAnalyze_history:
  "history (handleAnalyze e t1 t2 inp s) = history s
   \<or> (\<exists>r. history (handleAnalyze e t1 t2 inp s) = newItem t1 t2 r False # history s)"
  by (auto simp: handleAnalyze_def Let_def split: sum.split)

lemma handleQuickLookup_history:
  "history (handleQuickLookup e t1 t2 w s) = history s
   \<or> (\<exists>r. history (handleQuickLookup e t1 t2 w s) = newItem t1 t2 r False # history s)"
  by (auto simp: handleQuickLookup_def Let_def split: sum.split)

lemma handleSaveDailyItem_history:
  "history (handleSaveDailyItem t1 t2 d s) = newItem t1 t2 d True # history s"
  by (simp add: handleSaveDailyItem_def)

text \<open>
  Claim C10. Saving from the daily-study session puts a new item with
  \<^verbatim>\<open>isFavorite\<close> true at the head of the history. The main analysis and the
  quick lookup either leave the history as it is (no input, or the analysis failed)
  or put a new item with \<^verbatim>\<open>isFavorite\<close> false at its head.
\<close>

theorem created_isFavorite:
  "(\<exists>x. history (handleSaveDailyItem t1 t2 d s) = x # history s \<and> isFavorite x)
   \<and> (history (handleAnalyze e t1 t2 inp s) = history s
        \<or> (\<exists>x. history (handleAnalyze e t1 t2 inp s) = x # history s \<and> \<not> isFavorite x))
   \<and> (history (handleQuickLookup e t1 t2 w s) = history s
        \<or> (\<exists>x. history (handleQuickLookup e t1 t2 w s) = x # history s \<and> \<not> isFavorite x))"
proof -
  have fav: "isFavorite (newItem a b r True)" and nofav: "\<not> isFavorite (newItem a b r False)" for a b r
    by (simp_all add: newItem_def)
  show ?thesis
    using handleAnalyze_history [of e t1 t2 inp s] handleQuickLookup_history [of e t1 t2 w s]
      handleSaveDailyItem_history [of t1 t2 d s] fav nofav
    by metis
qed

theorem created_isFavorite_witness:
  "map isFavorite (history (handleSaveDailyItem 1000 1001 sample_analysis init_state)) = [True]
   \<and> map isFavorite (history (handleAnalyze good_env 1000 1001 ''hello'' init_state)) = [False]
   \<and> map isFavorite (history (handleQuickLookup good_env 1000 1001 ''hello'' init_state)) = [False]"
proof -
  have h: "history init_state = []"
    by (simp add: init_state_def)
  have a: "history (handleAnalyze good_env 1000 1001 ''hello'' init_state) \<noteq> history init_state"
    by (simp add: handleAnalyze_def analyzeContent_def analysis_parts_def Let_def good_env_def
          sample_response_def init_state_def ANALYSIS_MODEL_def TTS_MODEL_def)
  have q: "history (handleQuickLookup good_env 1000 1001 ''hello'' init_state) \<noteq> history init_state"
    by (simp add: handleQuickLookup_def analyzeContent_def analysis_parts_def Let_def good_env_def
          sample_response_def init_state_def ANALYSIS_MODEL_def TTS_MODEL_def)
  from created_isFavorite [of 1000 1001 sample_analysis init_state good_env "''hello''" "''hello''"] h a q
  show ?thesis by auto
qed

section \<open>Audio decoding\<close>

lemma uint8_bounds: "0 \<le> uint (b :: 8 word) \<and> uint b < 256"
  using uint_lt2p [of b] by simp

lemma uint_cat16: "uint (word_cat (hi :: 8 word) (lo :: 8 word) :: 16 word) = 256 * uint hi + uint lo"
proof -
  have "uint (word_cat hi lo :: 16 word) = concat_bit 8 (uint lo) (uint hi) mod 2 ^ 16"
    by (simp add: word_cat_eq' uint_word_of_int)
  also have "concat_bit 8 (uint lo) (uint hi) = uint lo + 256 * uint hi"
    using uint8_bounds [of lo]
    by (simp add: concat_bit_eq push_bit_eq_mult take_bit_eq_mod)
  finally show ?thesis 
    using uint8_bounds [of lo] uint8_bounds [of hi]
    by simp
qed

lemma sint16_uint: "sint (w :: 16 word) = (if uint w < 32768 then uint w else uint w - 65536)"
proof -
  have b: "0 \<le> uint w" "uint w < 65536"
    using uint_lt2p [of w] by simp_all
  have eq: "sint w = (uint w + 32768) mod 65536 - 32768"
    by (simp add: sint_uint signed_take_bit_eq_take_bit_shift take_bit_eq_mod)
  show ?thesis
  proof (cases "uint w < 32768")
    case True
    with b have "(uint w + 32768) mod 65536 = uint w + 32768"
      by (intro mod_pos_pos_trivial) simp_all
    with True eq show ?thesis by simp
  next
    case False
    have e: "uint w + 32768 = (uint w - 32768) + 65536"
      by arith
    have "(uint w + 32768) mod 65536 = (uint w - 32768) mod 65536"
      by (subst e) (rule mod_add_self2)
    also have "\<dots> = uint w - 32768"
      using b False by (intro mod_pos_pos_trivial) simp_all
    finally show ?thesis using False eq by simp
  qed
qed

lemma length_int16_pairs: "length (int16_pairs bytes) = length bytes div 2"
  by (induction bytes rule: int16_pairs.induct) simp_all

lemma nth_int16_pairs:
  "i < length bytes div 2 \<Longrightarrow>
     int16_pairs bytes ! i = word_cat (bytes ! (2 * i + 1)) (bytes ! (2 * i))"
proof (induction bytes arbitrary: i rule: int16_pairs.induct)
  case (1 lo hi rest)
  then show ?case by (cases i) simp_all
qed simp_all

lemma fill_upto:
  "n \<le> length d \<Longrightarrow> length cd = length d \<Longrightarrow>
     foldl (\<lambda>cd i. cd[i := f (d ! i)]) cd [0..<n] = map f (take n d) @ drop n cd"
proof (induction n)
  case 0
  then show ?case by simp
next
  case (Suc n)
  then have "foldl (\<lambda>cd i. cd[i := f (d ! i)]) cd [0..<Suc n]
      = (map f (take n d) @ drop n cd)[n := f (d ! n)]"
    by simp
  also have "\<dots> = map f (take (Suc n) d) @ drop (Suc n) cd"
    using Suc.prems
    by (intro nth_equalityI) (auto simp: nth_append nth_list_update less_Suc_eq)
  finally show ?case .
qed

lemma fill_channel_map:
  "length channelData = length dataInt16 \<Longrightarrow>
     fill_channel dataInt16 channelData = map (\<lambda>x. real_of_int (sint x) / 32768) dataInt16"
  using fill_upto [of "length dataInt16" dataInt16 channelData "\<lambda>x. real_of_int (sint x) / 32768"]
  by (simp add: fill_channel_def)

text \<open>
  Claim C4. For a byte sequence of even length the 16-bit view exists, and the
  samples the loop writes into the (zeroed) channel are as many as half the bytes;
  sample \<open>i\<close> is the signed 16-bit value of the bytes \<open>2i\<close> (low) and \<open>2i+1\<close> (high),
  that is \<open>lo + 256 * hi\<close> read in two's complement, divided by 32768. For a
  sequence that is not empty these samples are the channel data of the buffer
  that is played.
\<close>

theorem decode_samples:
  assumes "even (length bytes)"
  shows "\<exists>dataInt16 samples.
           Int16Array bytes = Inr dataInt16
         \<and> samples = fill_channel dataInt16 (replicate (length dataInt16) 0)
         \<and> length samples = length bytes div 2
         \<and> (\<forall>i < length bytes div 2.
               samples ! i =
                 real_of_int
                   (let u = uint (bytes ! (2 * i)) + 256 * uint (bytes ! (2 * i + 1))
                    in if u < 32768 then u else u - 65536) / 32768)
         \<and> (bytes \<noteq> [] \<longrightarrow> decodeAudioData bytes = Inr samples)"
proof -
  let ?d = "int16_pairs bytes"
  let ?s = "fill_channel ?d (replicate (length ?d) 0)"
  have view: "Int16Array bytes = Inr ?d"
    using assms by (simp add: Int16Array_def)
  have s: "?s = map (\<lambda>x. real_of_int (sint x) / 32768) ?d"
    by (simp add: fill_channel_map)
  have len: "length ?s = length bytes div 2"
    using s by (simp add: length_int16_pairs)
  have val: "?s ! i = real_of_int
                   (let u = uint (bytes ! (2 * i)) + 256 * uint (bytes ! (2 * i + 1))
                    in if u < 32768 then u else u - 65536) / 32768"
    if "i < length bytes div 2" for i
    using that s
    by (simp add: length_int16_pairs nth_int16_pairs sint16_uint uint_cat16 Let_def add.commute)
  have play: "decodeAudioData bytes = Inr ?s" if "bytes \<noteq> []"
  proof -
    from that assms have "length bytes div 2 \<noteq> 0"
      by (cases bytes) auto
    then show ?thesis
      by (simp add: decodeAudioData_def view createBuffer_def length_int16_pairs)
  qed
  from view len val play show ?thesis by blast
qed


theorem decode_samples_witness:
  "even (length [0, 0, 255, 127 :: 8 word])
   \<and> decodeAudioData [0, 0, 255, 127] = Inr [0, 32767 / 32768]"
proof -
  let ?b = "[0, 0, 255, 127] :: 8 word list"
  have ev: "even (length ?b)" by simp
  from decode_samples [OF ev] obtain d samples where
    view: "Int16Array ?b = Inr d" and
    len: "length samples = length ?b div 2" and
    val: "\<forall>i < length ?b div 2.
               samples ! i =
                 real_of_int
                   (let u = uint (?b ! (2 * i)) + 256 * uint (?b ! (2 * i + 1))
                    in if u < 32768 then u else u - 65536) / 32768" and
    dec: "?b \<noteq> [] \<longrightarrow> decodeAudioData ?b = Inr samples"
    by blast
  from len have l2: "length samples = 2" by simp
  from val [rule_format, of 0] have s0: "samples ! 0 = 0" by simp
  from val [rule_format, of 1] have s1: "samples ! 1 = 32767 / 32768" by simp
  have "samples = [0, 32767 / 32768]"
    using l2 s0 s1 by (intro nth_equalityI) (auto simp: less_Suc_eq numeral_2_eq_2)
  with dec ev show ?thesis by simp
qed

section \<open>Order and ids of the history\<close>















section \<open>The daily lesson\<close>

lemma length_assign_ids: "length (assign_ids rnd k items) = length items"
  by (induction items arbitrary: k) simp_all

lemma nth_assign_ids:
  "i < length items \<Longrightarrow>
     assign_ids rnd k items ! i = (items ! i)\<lparr>lesson_id := substr 2 9 (rnd (k + i))\<rparr>"
proof (induction items arbitrary: k i)
  case Nil
  then show ?case by simp
next
  case (Cons item items)
  then show ?case by (cases i) simp_all
qed

lemma generateDailyLesson_Inr:
  assumes "generateDailyLesson e level count topics lang = Inr items"
  shows "\<exists>resp t parsed.
           generateContent e (lesson_request level count topics lang) = Inr resp
         \<and> response_text resp = Some t \<and> t \<noteq> []
         \<and> parse_lesson e t = Some parsed
         \<and> items = assign_ids (random36 e) 0 parsed"
proof (cases "generateContent e (lesson_request level count topics lang)")
  case (Inl err)
  with assms show ?thesis by (simp add: generateDailyLesson_def)
next
  case (Inr resp)
  show ?thesis
  proof (cases "response_text resp")
    case None
    with Inr assms show ?thesis by (simp add: generateDailyLesson_def)
  next
    case (Some t)
    with Inr assms have t: "t \<noteq> []"
      by (auto simp: generateDailyLesson_def split: if_splits)
    with Inr Some assms obtain parsed where
      "parse_lesson e t = Some parsed" "items = assign_ids (random36 e) 0 parsed"
      by (auto simp: generateDailyLesson_def split: option.splits)
    with Inr Some t show ?thesis by blast
  qed
qed

lemma good_lesson:
  "generateDailyLesson good_env level count topics lang =
     Inr [sample_sentence\<lparr>lesson_id := ''k3j9x2m1q''\<rparr>, sample_vocabulary\<lparr>lesson_id := ''8f2mz0c4v''\<rparr>]"
  by (simp add: generateDailyLesson_def good_env_def sample_response_def lesson_request_def
        ANALYSIS_MODEL_def TTS_MODEL_def substr_def)

text \<open>
  Claim C2, as the code has it. When \<^verbatim>\<open>generateDailyLesson\<close> returns items, they
  are as many as the array parsed from the provider's response holds, whatever
  \<open>count\<close> was requested in the prompt. Item \<open>i\<close> carries the id the client
  draws for it, \<^verbatim>\<open>Math.random().toString(36).substr(2, 9)\<close>, which is not empty
  when the rendering has more than two characters, and it keeps the type tag and
  the content of the provider's item \<open>i\<close>.
\<close>

theorem generateDailyLesson_items:
  assumes "generateDailyLesson e level count topics lang = Inr items"
  shows "\<exists>resp t parsed.
           generateContent e (lesson_request level count topics lang) = Inr resp
         \<and> response_text resp = Some t
         \<and> parse_lesson e t = Some parsed
         \<and> length items = length parsed
         \<and> (\<forall>i < length parsed.
               lesson_id (items ! i) = substr 2 9 (random36 e i)
             \<and> (2 < length (random36 e i) \<longrightarrow> lesson_id (items ! i) \<noteq> [])
             \<and> lesson_type (items ! i) = lesson_type (parsed ! i)
             \<and> content (items ! i) = content (parsed ! i))"
proof -
  from generateDailyLesson_Inr [OF assms] obtain resp t parsed where
    r: "generateContent e (lesson_request level count topics lang) = Inr resp" and
    t: "response_text resp = Some t" and
    p: "parse_lesson e t = Some parsed" and
    i: "items = assign_ids (random36 e) 0 parsed"
    by blast
  have "length items = length parsed"
    by (simp add: i length_assign_ids)
  moreover have "lesson_id (items ! k) = substr 2 9 (random36 e k)
             \<and> (2 < length (random36 e k) \<longrightarrow> lesson_id (items ! k) \<noteq> [])
             \<and> lesson_type (items ! k) = lesson_type (parsed ! k)
             \<and> content (items ! k) = content (parsed ! k)"
    if "k < length parsed" for k
    using that by (simp add: i nth_assign_ids substr_def)
  ultimately show ?thesis using r t p by blast
qed

theorem generateDailyLesson_items_witness:
  "generateDailyLesson good_env B1 2 [] ''Chinese'' =
     Inr [sample_sentence\<lparr>lesson_id := ''k3j9x2m1q''\<rparr>, sample_vocabulary\<lparr>lesson_id := ''8f2mz0c4v''\<rparr>]
   \<and> parse_lesson good_env ''{}'' = Some [sample_sentence, sample_vocabulary]
   \<and> length [sample_sentence\<lparr>lesson_id := ''k3j9x2m1q''\<rparr>, sample_vocabulary\<lparr>lesson_id := ''8f2mz0c4v''\<rparr>]
       = length [sample_sentence, sample_vocabulary]"
proof -
  have p: "parse_lesson good_env ''{}'' = Some [sample_sentence, sample_vocabulary]"
    by (simp add: good_env_def)
  from generateDailyLesson_items [OF good_lesson [of B1 2 "[]" "''Chinese''"]] p good_lesson
  show ?thesis by simp
qed

text \<open>
  A request for five items answered by a provider whose array holds two: two items
  are returned.
\<close>

theorem generateDailyLesson_count_counterexample:
  "generateDailyLesson good_env B1 5 [] ''Chinese'' =
     Inr [sample_sentence\<lparr>lesson_id := ''k3j9x2m1q''\<rparr>, sample_vocabulary\<lparr>lesson_id := ''8f2mz0c4v''\<rparr>]
   \<and> length [sample_sentence\<lparr>lesson_id := ''k3j9x2m1q''\<rparr>, sample_vocabulary\<lparr>lesson_id := ''8f2mz0c4v''\<rparr>]
       \<noteq> (5 :: nat)"
  by (simp add: good_lesson)

text \<open>
  Claim C8, as the code has it. \<^verbatim>\<open>generateDailyLesson\<close> returns the options and
  the \<^verbatim>\<open>correctOptionIndex\<close> of every item as they were parsed from the
  provider's response, unchecked: the index is a valid index into the options
  exactly when the provider's was.
\<close>

theorem generateDailyLesson_options:
  assumes "generateDailyLesson e level count topics lang = Inr items"
  shows "\<exists>resp t parsed.
           generateContent e (lesson_request level count topics lang) = Inr resp
         \<and> response_text resp = Some t
         \<and> parse_lesson e t = Some parsed
         \<and> length items = length parsed
         \<and> (\<forall>i < length parsed.
               options (items ! i) = options (parsed ! i)
             \<and> correctOptionIndex (items ! i) = correctOptionIndex (parsed ! i))"
proof -
  from generateDailyLesson_Inr [OF assms] obtain resp t parsed where
    r: "generateContent e (lesson_request level count topics lang) = Inr resp" and
    t: "response_text resp = Some t" and
    p: "parse_lesson e t = Some parsed" and
    i: "items = assign_ids (random36 e) 0 parsed"
    by blast
  have "length items = length parsed"
    by (simp add: i length_assign_ids)
  moreover have "options (items ! k) = options (parsed ! k)
             \<and> correctOptionIndex (items ! k) = correctOptionIndex (parsed ! k)"
    if "k < length parsed" for k
    using that by (simp add: i nth_assign_ids)
  ultimately show ?thesis using r t p by blast
qed

theorem generateDailyLesson_options_witness:
  "generateDailyLesson good_env A1 2 [] ''Chinese'' =
     Inr [sample_sentence\<lparr>lesson_id := ''k3j9x2m1q''\<rparr>, sample_vocabulary\<lparr>lesson_id := ''8f2mz0c4v''\<rparr>]
   \<and> parse_lesson good_env ''{}'' = Some [sample_sentence, sample_vocabulary]
   \<and> correctOptionIndex (sample_vocabulary\<lparr>lesson_id := ''8f2mz0c4v''\<rparr>)
       = correctOptionIndex sample_vocabulary"
proof -
  have p: "parse_lesson good_env ''{}'' = Some [sample_sentence, sample_vocabulary]"
    by (simp add: good_env_def)
  from generateDailyLesson_options [OF good_lesson [of A1 2 "[]" "''Chinese''"]] p good_lesson
  show ?thesis by simp
qed

text \<open>
  A provider's vocabulary item with four options and the index 7 is returned as it
  came.
\<close>

theorem generateDailyLesson_index_counterexample:
  "generateDailyLesson good_env B1 2 [] ''Chinese'' =
     Inr [sample_sentence\<lparr>lesson_id := ''k3j9x2m1q''\<rparr>, sample_vocabulary\<lparr>lesson_id := ''8f2mz0c4v''\<rparr>]
   \<and> options (sample_vocabulary\<lparr>lesson_id := ''8f2mz0c4v''\<rparr>) = Some [''a'', ''b'', ''c'', ''d'']
   \<and> correctOptionIndex (sample_vocabulary\<lparr>lesson_id := ''8f2mz0c4v''\<rparr>) = Some 7
   \<and> \<not> (7 < int (length [''a'', ''b'', ''c'', ''d'']))"
  by (simp add: good_lesson sample_vocabulary_def)

section \<open>Playback lifecycle\<close>

lemma active_iff:
  "k \<in> set (active_sources s) \<longleftrightarrow> k < length (nodes s) \<and> node_playing (nodes s ! k)"
  by (auto simp: active_sources_def)

lemma active_append:
  "active_sources (s\<lparr>nodes := nodes s @ [n]\<rparr>) =
     active_sources s @ (if node_playing n then [length (nodes s)] else [])"
proof -
  have "filter (\<lambda>k. node_playing ((nodes s @ [n]) ! k)) [0..<length (nodes s)]
      = filter (\<lambda>k. node_playing (nodes s ! k)) [0..<length (nodes s)]"
    by (rule filter_cong) (simp_all add: nth_append)
  then show ?thesis
    by (simp add: active_sources_def)
qed

lemma active_nodes_cong:
  "nodes s' = nodes s \<Longrightarrow> active_sources s' = active_sources s"
  by (simp add: active_sources_def)

lemma playFromBase64_cases:
  "(nodes (playFromBase64 atob b s) = nodes s \<and> \<not> isPlaying (playFromBase64 atob b s)
      \<and> sourceNodeRef (playFromBase64 atob b s) = sourceNodeRef s)
   \<or> (\<exists>buf. nodes (playFromBase64 atob b s) =
               nodes s @ [\<lparr>node_buffer = buf, node_playing = True, ended_pending = False\<rparr>]
          \<and> isPlaying (playFromBase64 atob b s)
          \<and> sourceNodeRef (playFromBase64 atob b s) = Some (length (nodes s)))"
proof (cases "atob b")
  case None
  then show ?thesis by (simp add: playFromBase64_def)
next
  case (Some bytes)
  show ?thesis
  proof (cases "decodeAudioData bytes")
    case (Inl err)
    with Some show ?thesis by (simp add: playFromBase64_def)
  next
    case (Inr channelData)
    with Some have "nodes (playFromBase64 atob b s) =
               nodes s @ [\<lparr>node_buffer = channelData, node_playing = True, ended_pending = False\<rparr>]
          \<and> isPlaying (playFromBase64 atob b s)
          \<and> sourceNodeRef (playFromBase64 atob b s) = Some (length (nodes s))"
      by (simp add: playFromBase64_def)
    then show ?thesis by blast
  qed
qed

lemma active_play:
  "active_sources (playFromBase64 atob b s) = active_sources s
   \<or> active_sources (playFromBase64 atob b s) = active_sources s @ [length (nodes s)]"
proof -
  from playFromBase64_cases [of atob b s] show ?thesis
  proof
    assume "nodes (playFromBase64 atob b s) = nodes s \<and> \<not> isPlaying (playFromBase64 atob b s)
      \<and> sourceNodeRef (playFromBase64 atob b s) = sourceNodeRef s"
    then have "active_sources (playFromBase64 atob b s) = active_sources s"
      by (intro active_nodes_cong) simp
    then show ?thesis by simp
  next
    assume "\<exists>buf. nodes (playFromBase64 atob b s) =
               nodes s @ [\<lparr>node_buffer = buf, node_playing = True, ended_pending = False\<rparr>]
          \<and> isPlaying (playFromBase64 atob b s)
          \<and> sourceNodeRef (playFromBase64 atob b s) = Some (length (nodes s))"
    then obtain buf where
      n: "nodes (playFromBase64 atob b s) =
               nodes s @ [\<lparr>node_buffer = buf, node_playing = True, ended_pending = False\<rparr>]"
      by blast
    have "active_sources (playFromBase64 atob b s)
        = active_sources (s\<lparr>nodes := nodes s @ [\<lparr>node_buffer = buf, node_playing = True, ended_pending = False\<rparr>]\<rparr>)"
      by (rule active_nodes_cong) (simp add: n)
    then show ?thesis by (simp add: active_append)
  qed
qed

lemma active_stopAudio:
  "set (active_sources (stopAudio s)) =
     set (active_sources s) - (case sourceNodeRef s of Some k \<Rightarrow> {k} | None \<Rightarrow> {})"
  by (auto simp: active_iff stopAudio_def stop_def nth_list_update split: option.splits if_splits)

lemma active_onended: "active_sources (onended k s) = active_sources s"
proof -
  have "filter (\<lambda>i. node_playing ((nodes s)[k := (nodes s ! k)\<lparr>ended_pending := False\<rparr>] ! i))
          [0..<length (nodes s)]
      = filter (\<lambda>i. node_playing (nodes s ! i)) [0..<length (nodes s)]"
    by (cases "k < length (nodes s)") (auto intro!: filter_cong simp: nth_list_update)
  then show ?thesis
    by (simp add: onended_def active_sources_def)
qed

lemma sample_decode: "decodeAudioData [0, 0, 255, 127] = Inr [0, 32767 / 32768]"
proof -
  have v: "Int16Array [0, 0, 255, 127] = Inr [word_cat (0 :: 8 word) (0 :: 8 word), word_cat (127 :: 8 word) (255 :: 8 word)]"
    by (simp add: Int16Array_def)
  have c: "createBuffer (length [word_cat (0 :: 8 word) (0 :: 8 word) :: 16 word, word_cat (127 :: 8 word) (255 :: 8 word)]) = Inr [0, 0]"
    by (simp add: createBuffer_def)
  have f: "fill_channel [word_cat (0 :: 8 word) (0 :: 8 word), word_cat (127 :: 8 word) (255 :: 8 word)] [0, 0]
      = map (\<lambda>x. real_of_int (sint x) / 32768)
          [word_cat (0 :: 8 word) (0 :: 8 word) :: 16 word, word_cat (127 :: 8 word) (255 :: 8 word)]"
    by (rule fill_channel_map) simp
  have "map (\<lambda>x. real_of_int (sint x) / 32768)
          [word_cat (0 :: 8 word) (0 :: 8 word) :: 16 word, word_cat (127 :: 8 word) (255 :: 8 word)]
        = [0, 32767 / 32768]"
    by (simp add: sint16_uint uint_cat16)
  with f have "fill_channel [word_cat (0 :: 8 word) (0 :: 8 word), word_cat (127 :: 8 word) (255 :: 8 word)] [0, 0]
      = [0, 32767 / 32768]"
    by (rule trans)
  with v c show ?thesis
    by (simp only: decodeAudioData_def sum.case)
qed

lemma play_sample:
  "playFromBase64 sample_atob ''AAD/fw=='' s =
     s\<lparr>audioContextRef := True, nodes := nodes s @ [node0 True False],
       sourceNodeRef := Some (length (nodes s)), isPlaying := True\<rparr>"
  by (simp add: playFromBase64_def sample_atob_def sample_decode Let_def node0_def)

lemma listen_then_stop:
  "player_run good_env sample_atob [ClickListen, ClickStop] story_state =
     story_state\<lparr>audioContextRef := True, nodes := [node0 False True],
       sourceNodeRef := None, isPlaying := False\<rparr>"
  by (simp add: player_step_def playAudio_def play_sample story_state_def stopAudio_def stop_def node0_def)

lemma stale_ended_event:
  "player_run good_env sample_atob [ClickListen, ClickStop, ClickListen, EndedEvent 0] story_state =
     story_state\<lparr>audioContextRef := True, nodes := [node0 False False, node0 True False],
       sourceNodeRef := Some 1, isPlaying := False\<rparr>"
  by (simp add: player_step_def playAudio_def play_sample story_state_def stopAudio_def stop_def
        node0_def onended_def)

text \<open>
  The single operations. After a start made while no source is active at most one
  source is active, and a started source is the referenced one. \<^verbatim>\<open>stopAudio\<close>
  stops the referenced source, clears the reference and clears \<^verbatim>\<open>isPlaying\<close>.
  A source that reached its end is no longer active. A start stops no source, and
  the \<^verbatim>\<open>ended\<close> handler of any source clears \<^verbatim>\<open>isPlaying\<close>: the two facts
  behind the run that follows.
\<close>

lemma playback_operations:
  "(active_sources s = [] \<longrightarrow> length (active_sources (playFromBase64 atob b s)) \<le> 1)
   \<and> set (active_sources s) \<subseteq> set (active_sources (playFromBase64 atob b s))
   \<and> (isPlaying (playFromBase64 atob b s) \<longrightarrow>
        sourceNodeRef (playFromBase64 atob b s) = Some (length (nodes s))
        \<and> length (nodes s) \<in> set (active_sources (playFromBase64 atob b s)))
   \<and> sourceNodeRef (stopAudio s) = None
   \<and> \<not> isPlaying (stopAudio s)
   \<and> set (active_sources (stopAudio s)) =
        set (active_sources s) - (case sourceNodeRef s of Some k \<Rightarrow> {k} | None \<Rightarrow> {})
   \<and> k \<notin> set (active_sources (player_step e atob (BufferEnd k) s))
   \<and> (k < length (nodes s) \<and> ended_pending (nodes s ! k) \<longrightarrow> \<not> isPlaying (onended k s))
   \<and> sourceNodeRef (onended k s) = sourceNodeRef s
   \<and> active_sources (onended k s) = active_sources s"
proof -
  have one: "active_sources s = [] \<longrightarrow> length (active_sources (playFromBase64 atob b s)) \<le> 1"
    using active_play [of atob b s] by auto
  have keep: "set (active_sources s) \<subseteq> set (active_sources (playFromBase64 atob b s))"
    using active_play [of atob b s] by auto
  have ref: "isPlaying (playFromBase64 atob b s) \<longrightarrow>
        sourceNodeRef (playFromBase64 atob b s) = Some (length (nodes s))
        \<and> length (nodes s) \<in> set (active_sources (playFromBase64 atob b s))"
    using playFromBase64_cases [of atob b s] by (auto simp: active_iff)
  have st: "sourceNodeRef (stopAudio s) = None" "\<not> isPlaying (stopAudio s)"
    by (simp_all add: stopAudio_def split: option.split)
  have nat_end: "k \<notin> set (active_sources (player_step e atob (BufferEnd k) s))"
    by (simp add: active_iff player_step_def stop_def)
  have h: "k < length (nodes s) \<and> ended_pending (nodes s ! k) \<longrightarrow> \<not> isPlaying (onended k s)"
     "sourceNodeRef (onended k s) = sourceNodeRef s"
    by (simp_all add: onended_def)
  from one keep ref st active_stopAudio [of s] nat_end h active_onended [of k s]
  show ?thesis by blast
qed

lemma playback_operations_examples:
  "active_sources story_state = []
   \<and> length (active_sources (playFromBase64 sample_atob ''AAD/fw=='' story_state)) \<le> 1
   \<and> isPlaying (playFromBase64 sample_atob ''AAD/fw=='' story_state)
   \<and> sourceNodeRef (playFromBase64 sample_atob ''AAD/fw=='' story_state) = Some 0
   \<and> ended_pending
         (nodes (player_run good_env sample_atob [ClickListen, ClickStop] story_state) ! 0)
   \<and> \<not> isPlaying
         (onended 0 (player_run good_env sample_atob [ClickListen, ClickStop] story_state))"
proof -
  let ?s2 = "player_run good_env sample_atob [ClickListen, ClickStop] story_state"
  have a: "active_sources story_state = []"
    by (simp add: active_sources_def story_state_def)
  have p: "isPlaying (playFromBase64 sample_atob ''AAD/fw=='' story_state)"
    by (simp add: play_sample)
  have n: "length (nodes story_state) = 0"
    by (simp add: story_state_def)
  have e: "0 < length (nodes ?s2) \<and> ended_pending (nodes ?s2 ! 0)"
    by (simp only: listen_then_stop) (simp add: node0_def)
  from playback_operations [of story_state sample_atob "''AAD/fw==''" 0 good_env] a p n
  have one: "length (active_sources (playFromBase64 sample_atob ''AAD/fw=='' story_state)) \<le> 1"
    and ref: "sourceNodeRef (playFromBase64 sample_atob ''AAD/fw=='' story_state) = Some 0"
    by simp_all
  from playback_operations [of ?s2 sample_atob "''AAD/fw==''" 0 good_env] e
  have off: "\<not> isPlaying (onended 0 ?s2)"
    by blast
  from a one p ref e off show ?thesis by blast
qed

text \<open>
  Claim C5. At most one playback source is to be active at a time: a start while a
  source is active first stops that source, and the source is released on the
  explicit stop and on the natural end. The code keeps one source reference and
  offers ``Listen to Story'' only while \<^verbatim>\<open>isPlaying\<close> is false, and it breaks the
  claim on this run: listen, stop, listen again, then the \<^verbatim>\<open>ended\<close> event that
  \<^verbatim>\<open>stop()\<close> queued for the first source is dispatched and clears
  \<^verbatim>\<open>isPlaying\<close> while the second source plays; the next click on ``Listen to
  Story'' starts a third source without stopping the second. The second and the
  third source are then active together, the reference holds the third, and
  \<^verbatim>\<open>stopAudio\<close> stops the third only: the second plays on.
\<close>

theorem two_sources_active:
  "active_sources (player_run good_env sample_atob
      [ClickListen, ClickStop, ClickListen, EndedEvent 0, ClickListen] story_state) = [1, 2]
   \<and> sourceNodeRef (player_run good_env sample_atob
      [ClickListen, ClickStop, ClickListen, EndedEvent 0, ClickListen] story_state) = Some 2
   \<and> active_sources (player_run good_env sample_atob
      [ClickListen, ClickStop, ClickListen, EndedEvent 0, ClickListen, ClickStop] story_state) = [1]"
  by (simp add: player_step_def playAudio_def play_sample story_state_def stopAudio_def stop_def
        node0_def onended_def active_sources_def)

end
